theory Spec2Isabelle
  imports Complex_Main
begin

section \<open>Python values and built-ins used by PartB.py\<close>

text \<open>
  Exceptions are values. \<open>RequestException\<close> stands for
  \<^verbatim>\<open>requests.exceptions.RequestException\<close> and all its subclasses (the only class the
  two \<^verbatim>\<open>except\<close> clauses of the functions name); the other constructors are exceptions
  that are not subclasses of it. The string is the exception's text.
\<close>

datatype exn =
    RequestException string
  | KeyError string
  | TypeError string
  | ZeroDivisionError
  | OtherException string

text \<open>
  What a call into a library (requests, the detector) does: it raises or it returns.
  The libraries are not part of the repository, so their behaviour is an input.
\<close>

datatype 'a outcome = Raised exn | Returned 'a

subsection \<open>Strings: \<^verbatim>\<open>str.lower\<close>, \<^verbatim>\<open>str.title\<close>, \<^verbatim>\<open>str(int)\<close>\<close>

text \<open>
  Case mapping is modelled on ASCII letters; every other character is left as it is and
  counts as uncased.
\<close>

definition upper_letters :: string where
  "upper_letters = ''ABCDEFGHIJKLMNOPQRSTUVWXYZ''"

definition lower_letters :: string where
  "lower_letters = ''abcdefghijklmnopqrstuvwxyz''"

definition lower_char :: "char \<Rightarrow> char" where
  "lower_char c = (case map_of (zip upper_letters lower_letters) c of None \<Rightarrow> c | Some d \<Rightarrow> d)"

definition upper_char :: "char \<Rightarrow> char" where
  "upper_char c = (case map_of (zip lower_letters upper_letters) c of None \<Rightarrow> c | Some d \<Rightarrow> d)"

definition is_cased :: "char \<Rightarrow> bool" where
  "is_cased c = (c \<in> set upper_letters \<or> c \<in> set lower_letters)"

definition lower :: "string \<Rightarrow> string" where
  "lower s = map lower_char s"

text \<open>
  \<^verbatim>\<open>str.title\<close>: a letter that follows a cased character is lower-cased, any other
  letter is upper-cased.
\<close>

fun title_from :: "bool \<Rightarrow> string \<Rightarrow> string" where
  "title_from previous_is_cased [] = []"
| "title_from previous_is_cased (c # cs) =
     (if previous_is_cased then lower_char c else upper_char c) # title_from (is_cased c) cs"

definition title :: "string \<Rightarrow> string" where
  "title s = title_from False s"

text \<open>The decimal text of an integer, as an f-string prints it.\<close>

definition digit :: "nat \<Rightarrow> char" where
  "digit d = ''0123456789'' ! d"

fun str_nat :: "nat \<Rightarrow> string" where
  "str_nat n = (if n < 10 then [digit n] else str_nat (n div 10) @ [digit (n mod 10)])"

declare str_nat.simps [simp del]

definition str_int :: "int \<Rightarrow> string" where
  "str_int i = (if i < 0 then CHR ''-'' # str_nat (nat (- i)) else str_nat (nat i))"

subsection \<open>Numbers: \<^verbatim>\<open>sum\<close>, \<^verbatim>\<open>/\<close> and \<^verbatim>\<open>round\<close> on floats\<close>

text \<open>
  A float is represented by the real number it denotes (confidences are finite). What
  \<^verbatim>\<open>sum\<close> of a list of floats, \<^verbatim>\<open>/\<close> of a float by an int and \<^verbatim>\<open>round(x, ndigits)\<close>
  return is decided by the interpreter, not by the script: each result is rounded to a
  binary double, and \<^verbatim>\<open>sum\<close> does not add in the same way in every version of the
  interpreter. The three operations are therefore a parameter of the model, and the
  properties hold for every choice of them.
\<close>

record arithmetic =
  py_sum :: "real list \<Rightarrow> real"
  py_div :: "real \<Rightarrow> int \<Rightarrow> real"
  py_round :: "real \<Rightarrow> nat \<Rightarrow> real"

text \<open>
  The arithmetic without rounding error, used in the examples: the exact sum, the exact
  quotient, and the nearest number with \<open>ndigits\<close> decimals, a tie going to the one
  whose last digit is even.
\<close>

definition round_half_even :: "real \<Rightarrow> int" where
  "round_half_even x =
     (let f = \<lfloor>x\<rfloor>; d = x - of_int f
      in if d < 1 / 2 then f else if 1 / 2 < d then f + 1 else if even f then f else f + 1)"

definition exact_arithmetic :: arithmetic where
  "exact_arithmetic =
     \<lparr>py_sum = sum_list,
      py_div = (\<lambda>x n. x / of_int n),
      py_round = (\<lambda>x ndigits. of_int (round_half_even (x * 10 ^ ndigits)) / 10 ^ ndigits)\<rparr>"

subsection \<open>Dictionaries in insertion order\<close>

text \<open>
  A Python dict keeps its keys in the order of their first insertion, and the report
  and the mismatch list follow that order: a dict is an association list with distinct
  keys.
\<close>

type_synonym ('k, 'v) dict = "('k \<times> 'v) list"

definition keys :: "('k, 'v) dict \<Rightarrow> 'k list" where
  "keys d = map fst d"

text \<open>\<^verbatim>\<open>d.get(k, dflt)\<close>; also \<^verbatim>\<open>d[k]\<close> on a defaultdict whose factory gives \<open>dflt\<close>.\<close>

definition dict_get :: "('k, 'v) dict \<Rightarrow> 'k \<Rightarrow> 'v \<Rightarrow> 'v" where
  "dict_get d k dflt = (case map_of d k of None \<Rightarrow> dflt | Some v \<Rightarrow> v)"

text \<open>
  \<^verbatim>\<open>d[k] = f(d[k])\<close> on a defaultdict: an existing key keeps its place, a new one is
  added at the end with \<open>f dflt\<close>.
\<close>

fun dict_modify :: "('v \<Rightarrow> 'v) \<Rightarrow> 'v \<Rightarrow> 'k \<Rightarrow> ('k, 'v) dict \<Rightarrow> ('k, 'v) dict" where
  "dict_modify f dflt k [] = [(k, f dflt)]"
| "dict_modify f dflt k ((k', v) # d) =
     (if k' = k then (k', f v) # d else (k', v) # dict_modify f dflt k d)"

subsection \<open>JSON values, as \<^verbatim>\<open>response.json()\<close> returns them\<close>

datatype json =
    JNull
  | JBool bool
  | JNumber real
  | JString string
  | JArray "json list"
  | JObject "(string, json) dict"

text \<open>\<^verbatim>\<open>v[k]\<close> for a string key \<open>k\<close>: only a dict has string keys.\<close>

fun subscript :: "json \<Rightarrow> string \<Rightarrow> exn + json" where
  "subscript (JObject d) k = (case map_of d k of None \<Rightarrow> Inl (KeyError k) | Some v \<Rightarrow> Inr v)"
| "subscript (JArray xs) k = Inl (TypeError ''list indices must be integers or slices, not str'')"
| "subscript (JString s) k = Inl (TypeError ''string indices must be integers, not str'')"
| "subscript v k = Inl (TypeError ''object is not subscriptable'')"

text \<open>\<^verbatim>\<open>for x in v\<close>: a dict yields its keys, a string its characters.\<close>

fun iterate :: "json \<Rightarrow> exn + json list" where
  "iterate (JArray xs) = Inr xs"
| "iterate (JObject d) = Inr (map JString (keys d))"
| "iterate (JString s) = Inr (map (\<lambda>c. JString [c]) s)"
| "iterate v = Inl (TypeError ''object is not iterable'')"

section \<open>fetch_image_urls_from_unsplash\<close>

text \<open>\<^verbatim>\<open>[result['urls']['regular'] for result in ...]\<close>\<close>

fun regular_urls :: "json list \<Rightarrow> exn + json list" where
  "regular_urls [] = Inr []"
| "regular_urls (result # rest) =
     (case subscript result ''urls'' of
        Inl e \<Rightarrow> Inl e
      | Inr urls \<Rightarrow>
          (case subscript urls ''regular'' of
             Inl e \<Rightarrow> Inl e
           | Inr url \<Rightarrow>
               (case regular_urls rest of
                  Inl e \<Rightarrow> Inl e
                | Inr image_urls \<Rightarrow> Inr (url # image_urls))))"

text \<open>
  The body of the \<^verbatim>\<open>try\<close> block. \<open>api\<close> is what
  \<^verbatim>\<open>requests.get\<close>, \<^verbatim>\<open>raise_for_status\<close> and \<^verbatim>\<open>response.json\<close> do together: one of them
  raises, or the parsed body \<open>data\<close> is returned.
\<close>

definition search_photos :: "json outcome \<Rightarrow> exn + json list" where
  "search_photos api =
     (case api of
        Raised e \<Rightarrow> Inl e
      | Returned data \<Rightarrow>
          (case subscript data ''results'' of
             Inl e \<Rightarrow> Inl e
           | Inr results \<Rightarrow>
               (case iterate results of
                  Inl e \<Rightarrow> Inl e
                | Inr rs \<Rightarrow> regular_urls rs)))"



section \<open>analyze_video_background\<close>

subsection \<open>Inputs, accumulators and the report\<close>

text \<open>
  The detector is a black box. Of \<open>model\<close> the function reads the table
  \<^verbatim>\<open>model.names\<close>; what the \<^verbatim>\<open>try\<close> block of a frame does (the two requests calls and
  \<^verbatim>\<open>model.predict\<close>) is given with the frame: an exception, or the boxes of
  \<^verbatim>\<open>results[0].boxes\<close> as pairs of \<^verbatim>\<open>int(box.cls)\<close> and \<^verbatim>\<open>float(box.conf)\<close>
  (the empty list when \<^verbatim>\<open>results\<close> or the boxes are falsy).
\<close>

record model =
  names :: "int \<rightharpoonup> string"

type_synonym box = "int \<times> real"

type_synonym frame = "string \<times> box list outcome"

record accumulators =
  all_detected_items :: "(string, real list) dict"
  all_detected_counts :: "(string, int) dict"
  printed :: "string list"

record declared =
  environment :: "string option"
  assets :: "(string, int) dict option"

record object_row =
  item :: string
  count :: int
  avg_confidence :: real

record analysis =
  detected_environment :: string
  environment_confidence :: real
  detected_objects :: "object_row list"

record report =
  declared_data :: declared
  analysis_results :: analysis
  mismatch_highlight :: "string list"
  risk_flag :: string

subsection \<open>Printed lines and mismatch strings\<close>

definition quote :: char where
  "quote = CHR 0x27"

definition analyzing_line :: "nat \<Rightarrow> string" where
  "analyzing_line n =
     CHR 0x0A # ''Analyzing video background with '' @ str_nat n @ '' frames...''"

definition processing_line :: "nat \<Rightarrow> nat \<Rightarrow> string \<Rightarrow> string" where
  "processing_line i n image_url =
     ''  Processing frame '' @ str_nat (i + 1) @ ''/'' @ str_nat n @ '': '' @ image_url"

definition fetch_error_line :: "string \<Rightarrow> string \<Rightarrow> string" where
  "fetch_error_line image_url e = ''  Error fetching image from URL '' @ image_url @ '': '' @ e"

definition environment_mismatch :: "string \<Rightarrow> string \<Rightarrow> string" where
  "environment_mismatch declared_env detected_env =
     ''Declared environment '' @ [quote] @ declared_env @ [quote]
       @ '' does not match detected environment '' @ [quote] @ detected_env @ [quote]"

definition asset_mismatch :: "string \<Rightarrow> int \<Rightarrow> int \<Rightarrow> string" where
  "asset_mismatch asset declared_count detected_count =
     ''Declared '' @ [quote] @ asset @ '': '' @ str_int declared_count @ [quote]
       @ '' but detected '' @ [quote] @ asset @ '': '' @ str_int detected_count @ [quote]"

subsection \<open>The frame loop\<close>

definition record_detection :: "string \<Rightarrow> real \<Rightarrow> accumulators \<Rightarrow> accumulators" where
  "record_detection item_name confidence acc =
     acc\<lparr>all_detected_items :=
           dict_modify (\<lambda>cs. cs @ [confidence]) [] item_name (all_detected_items acc),
         all_detected_counts :=
           dict_modify (\<lambda>n. n + 1) 0 item_name (all_detected_counts acc)\<rparr>"

fun record_boxes :: "model \<Rightarrow> box list \<Rightarrow> accumulators \<Rightarrow> exn + accumulators" where
  "record_boxes m [] acc = Inr acc"
| "record_boxes m ((class_id, confidence) # boxes) acc =
     (case names m class_id of
        None \<Rightarrow> Inl (KeyError (str_int class_id))
      | Some item_name \<Rightarrow> record_boxes m boxes (record_detection item_name confidence acc))"

text \<open>
  \<open>n\<close> is \<^verbatim>\<open>len(image_urls)\<close> and \<open>i\<close> the index \<^verbatim>\<open>enumerate\<close> gives. An exception the
  \<^verbatim>\<open>except\<close> clause does not catch leaves the function.
\<close>

fun process_frames :: "model \<Rightarrow> nat \<Rightarrow> nat \<Rightarrow> frame list \<Rightarrow> accumulators \<Rightarrow> exn + accumulators" where
  "process_frames m n i [] acc = Inr acc"
| "process_frames m n i ((image_url, attempt) # rest) acc =
     (let acc1 = acc\<lparr>printed := printed acc @ [processing_line i n image_url]\<rparr>
      in case attempt of
           Raised (RequestException e) \<Rightarrow>
             process_frames m n (i + 1) rest
               (acc1\<lparr>printed := printed acc1 @ [fetch_error_line image_url e]\<rparr>)
         | Raised other \<Rightarrow> Inl other
         | Returned boxes \<Rightarrow>
             (case record_boxes m boxes acc1 of
                Inl e \<Rightarrow> Inl e
              | Inr acc2 \<Rightarrow> process_frames m n (i + 1) rest acc2))"

definition accumulate :: "model \<Rightarrow> frame list \<Rightarrow> exn + accumulators" where
  "accumulate m frames =
     process_frames m (length frames) 0 frames
       \<lparr>all_detected_items = [], all_detected_counts = [],
        printed = [analyzing_line (length frames)]\<rparr>"

subsection \<open>Environment classification\<close>

definition env_rules :: "(string, string list) dict" where
  "env_rules =
     [(''Home'', [''bed'', ''sofa'', ''tv'', ''refrigerator'', ''microwave'', ''chair'',
                 ''dining table'']),
      (''Office'', [''desk'', ''computer'', ''whiteboard'', ''chair'', ''meeting table'']),
      (''Shop'', [''shelf'', ''counter'', ''bottled products'', ''packaged boxes'',
                 ''refrigerator''])]"

definition common_items :: "string list \<Rightarrow> (string, int) dict \<Rightarrow> string list" where
  "common_items items counts = filter (\<lambda>item. item \<in> set (keys counts)) items"

definition total_confidence :: "arithmetic \<Rightarrow> (string, real list) dict \<Rightarrow> string list \<Rightarrow> real" where
  "total_confidence rt detected common =
     py_sum rt (map (\<lambda>item. py_sum rt (dict_get detected item [])) common)"

definition total_count :: "(string, int) dict \<Rightarrow> string list \<Rightarrow> int" where
  "total_count counts common = sum_list (map (\<lambda>item. dict_get counts item 0) common)"

text \<open>
  The loop over the rules, from the initial values \<^verbatim>\<open>"Uncategorized"\<close> and \<^verbatim>\<open>0.0\<close>;
  the first rule with a common item sets both and breaks.
\<close>

fun classify :: "arithmetic \<Rightarrow> (string, string list) dict \<Rightarrow> (string, real list) dict
    \<Rightarrow> (string, int) dict \<Rightarrow> string \<times> real" where
  "classify rt [] detected counts = (''Uncategorized'', 0)"
| "classify rt ((env, items) # rules) detected counts =
     (if common_items items counts \<noteq> [] then
        (env,
         if 0 < total_count counts (common_items items counts)
         then py_round rt
                (py_div rt (total_confidence rt detected (common_items items counts))
                   (total_count counts (common_items items counts)))
                2
         else 0)
      else classify rt rules detected counts)"

subsection \<open>Comparison against the declared data\<close>

text \<open>The state of the comparison is the pair of \<^verbatim>\<open>mismatches\<close> and \<^verbatim>\<open>risk_flag\<close>.\<close>

definition compare_environment :: "string option \<Rightarrow> string \<Rightarrow> string list \<times> string
    \<Rightarrow> string list \<times> string" where
  "compare_environment declared_env detected_env st =
     (case declared_env of
        None \<Rightarrow> st
      | Some d \<Rightarrow>
          if d \<noteq> [] \<and> lower d \<noteq> lower detected_env
          then (fst st @ [environment_mismatch d detected_env], ''Review Required'')
          else st)"

fun compare_assets :: "(string, int) dict \<Rightarrow> (string, int) dict \<Rightarrow> string list \<times> string
    \<Rightarrow> string list \<times> string" where
  "compare_assets [] counts st = st"
| "compare_assets ((asset, declared_count) # rest) counts st =
     (if declared_count \<noteq> dict_get counts asset 0
      then compare_assets rest counts
             (fst st @ [asset_mismatch asset declared_count (dict_get counts asset 0)],
              ''Review Required'')
      else compare_assets rest counts st)"

subsection \<open>The report\<close>

text \<open>
  One row per key of \<^verbatim>\<open>all_detected_items\<close>, in its order. Dividing by the length of
  an empty list raises.
\<close>

fun object_rows :: "arithmetic \<Rightarrow> (string, real list) dict \<Rightarrow> (string, int) dict
    \<Rightarrow> exn + object_row list" where
  "object_rows rt [] counts = Inr []"
| "object_rows rt ((label, confidences) # rest) counts =
     (if confidences = [] then Inl ZeroDivisionError
      else
        (case object_rows rt rest counts of
           Inl e \<Rightarrow> Inl e
         | Inr rows \<Rightarrow>
             Inr (\<lparr>item = title label,
                   count = dict_get counts label 0,
                   avg_confidence =
                     py_round rt (py_div rt (py_sum rt confidences) (int (length confidences))) 2\<rparr>
                  # rows)))"

text \<open>\<^verbatim>\<open>declared_data.get("assets", {})\<close>\<close>

definition declared_assets :: "declared \<Rightarrow> (string, int) dict" where
  "declared_assets manifest = (case assets manifest of None \<Rightarrow> [] | Some a \<Rightarrow> a)"

definition build_report :: "arithmetic \<Rightarrow> accumulators \<Rightarrow> declared \<Rightarrow> exn + report" where
  "build_report rt acc manifest =
     (let (detected_env, env_confidence) =
            classify rt env_rules (all_detected_items acc) (all_detected_counts acc);
          declared_env = environment manifest;
          (mismatches, flag) =
            compare_assets (declared_assets manifest) (all_detected_counts acc)
              (compare_environment declared_env detected_env ([], ''Pass''))
      in case object_rows rt (all_detected_items acc) (all_detected_counts acc) of
           Inl e \<Rightarrow> Inl e
         | Inr rows \<Rightarrow>
             Inr \<lparr>declared_data = manifest,
                  analysis_results =
                    \<lparr>detected_environment = detected_env,
                     environment_confidence = env_confidence,
                     detected_objects = rows\<rparr>,
                  mismatch_highlight = mismatches,
                  risk_flag = flag\<rparr>)"

definition analyze_video_background ::
    "arithmetic \<Rightarrow> model \<Rightarrow> frame list \<Rightarrow> declared \<Rightarrow> exn + report" where
  "analyze_video_background rt m frames manifest =
     (case accumulate m frames of
        Inl e \<Rightarrow> Inl e
      | Inr acc \<Rightarrow> build_report rt acc manifest)"

section \<open>Notions the properties are stated with\<close>

text \<open>
  The detections of a run, in the order the loop meets them: the boxes of the frames
  whose \<^verbatim>\<open>try\<close> block returned, each with the name of its class. A class id without a
  name makes the run raise; in a run that returns there is none, and every box is listed.
\<close>

fun labelled :: "model \<Rightarrow> box list \<Rightarrow> (string \<times> real) list" where
  "labelled m [] = []"
| "labelled m ((class_id, confidence) # boxes) =
     (case names m class_id of
        None \<Rightarrow> labelled m boxes
      | Some item_name \<Rightarrow> (item_name, confidence) # labelled m boxes)"

fun frame_detections :: "model \<Rightarrow> frame \<Rightarrow> (string \<times> real) list" where
  "frame_detections m (image_url, Raised e) = []"
| "frame_detections m (image_url, Returned boxes) = labelled m boxes"

definition detections :: "model \<Rightarrow> frame list \<Rightarrow> (string \<times> real) list" where
  "detections m frames = concat (map (frame_detections m) frames)"

definition detected_labels :: "(string \<times> real) list \<Rightarrow> string set" where
  "detected_labels ds = set (map fst ds)"

text \<open>The confidences recorded for a label, and how often the label was detected.\<close>

definition recorded :: "(string \<times> real) list \<Rightarrow> string \<Rightarrow> real list" where
  "recorded ds label = map snd (filter (\<lambda>d. fst d = label) ds)"

definition detected_count :: "(string \<times> real) list \<Rightarrow> string \<Rightarrow> int" where
  "detected_count ds label = int (length (recorded ds label))"

text \<open>A rule's characteristic labels intersect a set of labels.\<close>

definition intersects :: "string set \<Rightarrow> string \<times> string list \<Rightarrow> bool" where
  "intersects labels rule = (set (snd rule) \<inter> labels \<noteq> {})"

text \<open>
  The asset mismatch strings as the specification words them: one for each declared
  pair, in the order of the manifest, whose declared count is not the detected one.
\<close>

definition asset_mismatches :: "(string, int) dict \<Rightarrow> (string \<Rightarrow> int) \<Rightarrow> string list" where
  "asset_mismatches declared detected =
     concat (map (\<lambda>(asset, declared_count).
                    if declared_count = detected asset then []
                    else [asset_mismatch asset declared_count (detected asset)])
                 declared)"

text \<open>
  The weighted mean confidence over a list of labels, as the classifier computes it:
  the sum of the sums of their recorded confidences, divided by the sum of their
  counts.
\<close>

definition weighted_mean :: "arithmetic \<Rightarrow> (string \<times> real) list \<Rightarrow> string list \<Rightarrow> real" where
  "weighted_mean rt ds common =
     py_div rt (py_sum rt (map (\<lambda>label. py_sum rt (recorded ds label)) common))
       (sum_list (map (detected_count ds) common))"

text \<open>
  The accumulators hold the detections \<open>ds\<close> grouped by label: both dicts have the
  detected labels as keys, in the same order and once each; a label's list is its
  recorded confidences and its count is their number.
\<close>

definition grouped :: "(string \<times> real) list \<Rightarrow> accumulators \<Rightarrow> bool" where
  "grouped ds acc \<longleftrightarrow>
     keys (all_detected_counts acc) = keys (all_detected_items acc) \<and>
     distinct (keys (all_detected_items acc)) \<and>
     set (keys (all_detected_items acc)) = detected_labels ds \<and>
     (\<forall>l. dict_get (all_detected_items acc) l [] = recorded ds l) \<and>
     (\<forall>l. dict_get (all_detected_counts acc) l 0 = detected_count ds l)"

text \<open>The two dicts of the accumulators, without the printed lines.\<close>

definition dicts :: "accumulators \<Rightarrow> (string, real list) dict \<times> (string, int) dict" where
  "dicts acc = (all_detected_items acc, all_detected_counts acc)"

text \<open>The row the report builds from one entry of \<^verbatim>\<open>all_detected_items\<close>.\<close>

definition row_of :: "arithmetic \<Rightarrow> (string, int) dict \<Rightarrow> string \<times> real list \<Rightarrow> object_row" where
  "row_of rt counts e =
     \<lparr>item = title (fst e), count = dict_get counts (fst e) 0,
      avg_confidence = py_round rt (py_div rt (py_sum rt (snd e)) (int (length (snd e)))) 2\<rparr>"

text \<open>The scenario of the specification: a sofa and two chairs, with one frame that fails to load.\<close>

definition example_model :: model where
  "example_model = \<lparr>names = [56 \<mapsto> ''chair'', 57 \<mapsto> ''sofa'', 72 \<mapsto> ''refrigerator'']\<rparr>"

definition example_frames :: "frame list" where
  "example_frames =
     [(''https://images.example/1'', Returned [(57, 9 / 10), (56, 8 / 10)]),
      (''https://images.example/2'', Raised (RequestException ''timed out'')),
      (''https://images.example/3'', Returned [(56, 7 / 10)])]"

definition example_declared :: declared where
  "example_declared =
     \<lparr>environment = Some ''Home'', assets = Some [(''sofa'', 1), (''chair'', 2)]\<rparr>"

text \<open>
  A second run, whose means are not multiples of 1/100: a sofa at 13/16, and a chair at
  5/8 and at 7/8.
\<close>

definition rounding_frames :: "frame list" where
  "rounding_frames =
     [(''https://images.example/4'', Returned [(57, 13 / 16), (56, 5 / 8)]),
      (''https://images.example/5'', Returned [(56, 7 / 8)])]"

text \<open>The declared data of use cases A and B of \<^verbatim>\<open>main\<close>.\<close>

definition declared_data_a :: declared where
  "declared_data_a =
     \<lparr>environment = Some ''Home'', assets = Some [(''refrigerator'', 2), (''sofa'', 1)]\<rparr>"

definition declared_data_b :: declared where
  "declared_data_b =
     \<lparr>environment = Some ''Shop'', assets = Some [(''refrigerator'', 1), (''counter'', 1)]\<rparr>"

section \<open>Lemmas\<close>

subsection \<open>dict_modify\<close>

lemma keys_dict_modify:
  "keys (dict_modify f dflt k d) = (if k \<in> set (keys d) then keys d else keys d @ [k])"
proof (induction d)
  case Nil
  show ?case by (simp add: keys_def)
next
  case (Cons p d)
  obtain k' v where p: "p = (k', v)" by (cases p)
  show ?case using Cons.IH by (cases "k' = k") (simp_all add: keys_def p)
qed

lemma map_of_dict_modify:
  "map_of (dict_modify f dflt k d) = (map_of d)(k \<mapsto> f (dict_get d k dflt))"
  by (induction d) (auto simp: dict_get_def fun_eq_iff)

lemma dict_get_dict_modify:
  "dict_get (dict_modify f dflt k d) l dflt' =
     (if l = k then f (dict_get d k dflt) else dict_get d l dflt')"
  by (simp add: dict_get_def map_of_dict_modify)

lemma dict_get_absent: "k \<notin> set (keys d) \<Longrightarrow> dict_get d k dflt = dflt"
  by (simp add: dict_get_def keys_def map_of_eq_None_iff[THEN iffD2])

lemma dict_get_present: "distinct (keys d) \<Longrightarrow> (k, v) \<in> set d \<Longrightarrow> dict_get d k dflt = v"
  by (simp add: dict_get_def keys_def)

subsection \<open>The accumulators hold the detections, grouped by label\<close>

lemma grouped_record_detection:
  "grouped ds acc \<Longrightarrow> grouped (ds @ [(l, c)]) (record_detection l c acc)"
  unfolding grouped_def record_detection_def
  by (auto simp: keys_dict_modify dict_get_dict_modify detected_labels_def recorded_def detected_count_def)

lemma grouped_printed: "grouped ds (acc\<lparr>printed := p\<rparr>) = grouped ds acc"
  by (simp add: grouped_def)

lemma grouped_record_boxes:
  "record_boxes m boxes acc = Inr acc' \<Longrightarrow> grouped ds acc \<Longrightarrow> grouped (ds @ labelled m boxes) acc'"
proof (induction boxes arbitrary: acc ds)
  case Nil
  then show ?case by simp
next
  case (Cons b boxes)
  obtain class_id confidence where b: "b = (class_id, confidence)" by (cases b)
  from Cons.prems(1) b obtain item_name where n: "names m class_id = Some item_name"
    and r: "record_boxes m boxes (record_detection item_name confidence acc) = Inr acc'"
    by (auto split: option.splits)
  from Cons.IH[OF r grouped_record_detection[OF Cons.prems(2)]] show ?case
    by (simp add: b n)
qed

lemma grouped_process_frames:
  "process_frames m n i frames acc = Inr acc' \<Longrightarrow> grouped ds acc \<Longrightarrow> grouped (ds @ detections m frames) acc'"
proof (induction frames arbitrary: acc ds i)
  case Nil
  then show ?case by (simp add: detections_def)
next
  case (Cons fr frames)
  obtain image_url attempt where fr: "fr = (image_url, attempt)" by (cases fr)
  show ?case
  proof (cases attempt)
    case (Raised e)
    with Cons.prems(1) fr obtain t where e: "e = RequestException t"
      by (cases e) (auto simp: Let_def)
    from Cons.prems(1) have "process_frames m n (i + 1) frames
        (acc\<lparr>printed := printed acc @ [processing_line i n image_url, fetch_error_line image_url t]\<rparr>) = Inr acc'"
      by (simp add: fr Raised e Let_def)
    from Cons.IH[OF this] Cons.prems(2) show ?thesis
      by (simp add: grouped_printed detections_def fr Raised)
  next
    case (Returned boxes)
    from Cons.prems(1) obtain acc2 where
      b: "record_boxes m boxes (acc\<lparr>printed := printed acc @ [processing_line i n image_url]\<rparr>) = Inr acc2"
      and r: "process_frames m n (i + 1) frames acc2 = Inr acc'"
      by (auto simp: fr Returned Let_def split: sum.splits)
    from grouped_record_boxes[OF b] Cons.prems(2) have "grouped (ds @ labelled m boxes) acc2"
      by (simp add: grouped_printed)
    from Cons.IH[OF r this] show ?thesis
      by (simp add: detections_def fr Returned)
  qed
qed

lemma grouped_accumulate:
  "accumulate m frames = Inr acc \<Longrightarrow> grouped (detections m frames) acc"
  using grouped_process_frames[of m "length frames" 0 frames _ acc "[]"]
  by (simp add: accumulate_def grouped_def keys_def detected_labels_def recorded_def detected_count_def dict_get_def)

subsection \<open>The report rows\<close>

lemma object_rows_nonempty:
  "[] \<notin> snd ` set d \<Longrightarrow> object_rows rt d counts = Inr (map (row_of rt counts) d)"
  by (induction d) (auto simp: row_of_def)

lemma recorded_nonempty: "l \<in> detected_labels ds \<Longrightarrow> recorded ds l \<noteq> []"
  by (auto simp: detected_labels_def recorded_def filter_empty_conv)

lemma recorded_empty: "l \<notin> detected_labels ds \<Longrightarrow> recorded ds l = []"
  by (auto simp: detected_labels_def recorded_def filter_empty_conv)

lemma grouped_entry:
  assumes "grouped ds acc" and "(l, cs) \<in> set (all_detected_items acc)"
  shows "l \<in> detected_labels ds \<and> cs = recorded ds l"
proof -
  from assms have "l \<in> set (keys (all_detected_items acc))"
    by (force simp: keys_def)
  moreover from assms have "dict_get (all_detected_items acc) l [] = cs"
    by (intro dict_get_present) (simp_all add: grouped_def)
  ultimately show ?thesis using assms(1) by (simp add: grouped_def)
qed

lemma grouped_rows:
  assumes "grouped ds acc"
  shows "object_rows rt (all_detected_items acc) (all_detected_counts acc)
           = Inr (map (row_of rt (all_detected_counts acc)) (all_detected_items acc))"
proof (rule object_rows_nonempty)
  show "[] \<notin> snd ` set (all_detected_items acc)"
  proof
    assume "[] \<in> snd ` set (all_detected_items acc)"
    then obtain l where "(l, []) \<in> set (all_detected_items acc)" by force
    from grouped_entry[OF assms this] recorded_nonempty show False by force
  qed
qed

subsection \<open>The classifier picks the first intersecting rule\<close>

lemma common_items_grouped:
  "grouped ds acc \<Longrightarrow>
     common_items items (all_detected_counts acc) = filter (\<lambda>l. l \<in> detected_labels ds) items"
  by (simp add: common_items_def grouped_def)

lemma intersects_filter:
  "intersects labels (env, items) \<longleftrightarrow> filter (\<lambda>l. l \<in> labels) items \<noteq> []"
  by (auto simp: intersects_def filter_empty_conv)

lemma total_count_grouped:
  "grouped ds acc \<Longrightarrow> total_count (all_detected_counts acc) common = sum_list (map (detected_count ds) common)"
  by (simp add: total_count_def grouped_def)

lemma total_confidence_grouped:
  "grouped ds acc \<Longrightarrow>
     total_confidence rt (all_detected_items acc) common
       = py_sum rt (map (\<lambda>label. py_sum rt (recorded ds label)) common)"
  by (simp add: total_confidence_def grouped_def)

lemma detected_count_positive: "l \<in> detected_labels ds \<Longrightarrow> 1 \<le> detected_count ds l"
  using recorded_nonempty[of l ds] by (cases "recorded ds l") (simp_all add: detected_count_def)

lemma sum_counts_positive:
  "common \<noteq> [] \<Longrightarrow> set common \<subseteq> detected_labels ds \<Longrightarrow> 0 < sum_list (map (detected_count ds) common)"
proof (induction common)
  case Nil
  then show ?case by simp
next
  case (Cons l common)
  have "0 \<le> sum_list (map (detected_count ds) common)"
    by (rule sum_list_nonneg) (auto simp: detected_count_def)
  moreover from Cons.prems have "1 \<le> detected_count ds l"
    by (simp add: detected_count_positive)
  ultimately show ?case by simp
qed

lemma classify_grouped:
  assumes "grouped ds acc"
  shows "classify rt rules (all_detected_items acc) (all_detected_counts acc) =
           (case find (intersects (detected_labels ds)) rules of
              None \<Rightarrow> (''Uncategorized'', 0)
            | Some rule \<Rightarrow>
                (fst rule,
                 py_round rt
                   (weighted_mean rt ds (filter (\<lambda>l. l \<in> detected_labels ds) (snd rule))) 2))"
proof (induction rules)
  case Nil
  show ?case by simp
next
  case (Cons rule rules)
  obtain env items where rule: "rule = (env, items)" by (cases rule)
  let ?common = "filter (\<lambda>l. l \<in> detected_labels ds) items"
  show ?case
  proof (cases "intersects (detected_labels ds) (env, items)")
    case True
    then have ne: "?common \<noteq> []" by (simp add: intersects_filter)
    then have "0 < sum_list (map (detected_count ds) ?common)"
      by (rule sum_counts_positive) auto
    with True ne show ?thesis
      by (simp add: rule common_items_grouped[OF assms] total_count_grouped[OF assms]
          total_confidence_grouped[OF assms] weighted_mean_def)
  next
    case False
    then have "?common = []" by (simp add: intersects_filter)
    with False Cons.IH show ?thesis
      by (simp add: rule common_items_grouped[OF assms])
  qed
qed

lemma find_filter_hd: "find P xs = (case filter P xs of [] \<Rightarrow> None | x # _ \<Rightarrow> Some x)"
  by (induction xs) auto

subsection \<open>The comparison\<close>

lemma compare_assets_eq:
  "compare_assets declared counts st =
     (fst st @ asset_mismatches declared (\<lambda>asset. dict_get counts asset 0),
      if asset_mismatches declared (\<lambda>asset. dict_get counts asset 0) = [] then snd st
      else ''Review Required'')"
proof (induction declared arbitrary: st)
  case Nil
  show ?case by (simp add: asset_mismatches_def)
next
  case (Cons p declared)
  obtain asset declared_count where p: "p = (asset, declared_count)" by (cases p)
  show ?case
    by (cases "declared_count = dict_get counts asset 0")
       (simp_all add: p Cons.IH asset_mismatches_def)
qed

lemma asset_mismatches_grouped:
  "grouped ds acc \<Longrightarrow>
     asset_mismatches declared (\<lambda>asset. dict_get (all_detected_counts acc) asset 0)
       = asset_mismatches declared (detected_count ds)"
  by (simp add: grouped_def)

lemma asset_mismatches_empty:
  "asset_mismatches declared detected = [] \<longleftrightarrow> (\<forall>p \<in> set declared. snd p = detected (fst p))"
  by (induction declared) (auto simp: asset_mismatches_def split: if_splits)

subsection \<open>The report of a run that accumulated its detections\<close>

lemma build_report_grouped:
  assumes "grouped ds acc"
  shows "build_report rt acc manifest =
     Inr \<lparr>declared_data = manifest,
          analysis_results =
            \<lparr>detected_environment =
               fst (classify rt env_rules (all_detected_items acc) (all_detected_counts acc)),
             environment_confidence =
               snd (classify rt env_rules (all_detected_items acc) (all_detected_counts acc)),
             detected_objects = map (row_of rt (all_detected_counts acc)) (all_detected_items acc)\<rparr>,
          mismatch_highlight =
            fst (compare_environment (environment manifest)
                   (fst (classify rt env_rules (all_detected_items acc) (all_detected_counts acc)))
                   ([], ''Pass''))
              @ asset_mismatches (declared_assets manifest) (detected_count ds),
          risk_flag =
            (if asset_mismatches (declared_assets manifest) (detected_count ds) = []
             then snd (compare_environment (environment manifest)
                   (fst (classify rt env_rules (all_detected_items acc) (all_detected_counts acc)))
                   ([], ''Pass''))
             else ''Review Required'')\<rparr>"
  by (simp add: build_report_def grouped_rows[OF assms] compare_assets_eq
      asset_mismatches_grouped[OF assms] split_beta Let_def)

lemma analyze_accumulated:
  "analyze_video_background rt m frames manifest = Inr r \<Longrightarrow>
     \<exists>acc. accumulate m frames = Inr acc \<and> build_report rt acc manifest = Inr r"
  by (auto simp: analyze_video_background_def split: sum.splits)

lemma analyze_of_accumulate:
  "accumulate m frames = Inr acc \<Longrightarrow>
     analyze_video_background rt m frames manifest = build_report rt acc manifest"
  by (simp add: analyze_video_background_def)

lemma compare_environment_cases:
  "compare_environment declared_env detected_env ([], ''Pass'') =
     (if (\<exists>d. declared_env = Some d \<and> d \<noteq> [] \<and> lower d \<noteq> lower detected_env)
      then ([environment_mismatch (the declared_env) detected_env], ''Review Required'')
      else ([], ''Pass''))"
  by (auto simp: compare_environment_def split: option.splits)

lemma asset_mismatch_not_environment:
  "s \<in> set (asset_mismatches declared detected) \<Longrightarrow> s \<noteq> environment_mismatch d e"
  by (auto simp: asset_mismatches_def asset_mismatch_def environment_mismatch_def quote_def
      split: if_splits)

subsection \<open>The example run\<close>

lemma example_accumulates: "\<exists>acc. accumulate example_model example_frames = Inr acc"
  by (simp add: accumulate_def example_model_def example_frames_def record_detection_def)

lemma example_detections:
  "detections example_model example_frames =
     [(''sofa'', 9 / 10), (''chair'', 8 / 10), (''chair'', 7 / 10)]"
  by (simp add: detections_def example_model_def example_frames_def)

lemma example_counts:
  "detected_count (detections example_model example_frames) ''sofa'' = 1"
  "detected_count (detections example_model example_frames) ''chair'' = 2"
  "detected_count (detections example_model example_frames) ''refrigerator'' = 0"
  "detected_count (detections example_model example_frames) ''counter'' = 0"
  by (simp_all add: detected_count_def recorded_def example_detections)

subsection \<open>Mismatches and risk flag of a report\<close>

lemma analyze_report:
  assumes "analyze_video_background rt m frames manifest = Inr r"
  shows "mismatch_highlight r =
           fst (compare_environment (environment manifest)
                  (detected_environment (analysis_results r)) ([], ''Pass''))
             @ asset_mismatches (declared_assets manifest) (detected_count (detections m frames))"
    and "risk_flag r =
           (if asset_mismatches (declared_assets manifest) (detected_count (detections m frames)) = []
            then snd (compare_environment (environment manifest)
                        (detected_environment (analysis_results r)) ([], ''Pass''))
            else ''Review Required'')"
proof -
  from assms obtain acc where acc: "accumulate m frames = Inr acc"
    and b: "build_report rt acc manifest = Inr r"
    using analyze_accumulated by blast
  have g: "grouped (detections m frames) acc" using acc by (rule grouped_accumulate)
  from b build_report_grouped[OF g, where manifest = manifest and rt = rt]
  show "mismatch_highlight r =
           fst (compare_environment (environment manifest)
                  (detected_environment (analysis_results r)) ([], ''Pass''))
             @ asset_mismatches (declared_assets manifest) (detected_count (detections m frames))"
    by auto
  from b build_report_grouped[OF g, where manifest = manifest and rt = rt]
  show "risk_flag r =
           (if asset_mismatches (declared_assets manifest) (detected_count (detections m frames)) = []
            then snd (compare_environment (environment manifest)
                        (detected_environment (analysis_results r)) ([], ''Pass''))
            else ''Review Required'')"
    by auto
qed

lemma asset_mismatches_nonempty:
  "asset_mismatches declared detected \<noteq> [] \<longleftrightarrow> (\<exists>p \<in> set declared. snd p \<noteq> detected (fst p))"
  by (simp add: asset_mismatches_empty)

subsection \<open>The dicts do not depend on what is printed\<close>

lemma dicts_printed: "dicts (acc\<lparr>printed := p\<rparr>) = dicts acc"
  by (simp add: dicts_def)

lemma dicts_record_detection:
  "dicts acc = dicts acc' \<Longrightarrow> dicts (record_detection l c acc) = dicts (record_detection l c acc')"
  by (simp add: dicts_def record_detection_def)

lemma map_sum_eq_Inl: "map_sum id f x = map_sum id f y \<Longrightarrow> x = Inl e \<Longrightarrow> y = Inl e"
  by (cases y) auto

lemma map_sum_eq_Inr:
  "map_sum id f x = map_sum id f y \<Longrightarrow> x = Inr a \<Longrightarrow> \<exists>b. y = Inr b \<and> f b = f a"
  by (cases y) auto

lemma record_boxes_dicts:
  "dicts acc = dicts acc' \<Longrightarrow>
     map_sum id dicts (record_boxes m boxes acc) = map_sum id dicts (record_boxes m boxes acc')"
proof (induction boxes arbitrary: acc acc')
  case Nil
  then show ?case by simp
next
  case (Cons b boxes)
  obtain class_id confidence where b: "b = (class_id, confidence)" by (cases b)
  show ?case
  proof (cases "names m class_id")
    case None
    then show ?thesis by (simp add: b)
  next
    case (Some item_name)
    from Cons.IH[OF dicts_record_detection[OF Cons.prems]] show ?thesis
      by (simp add: b Some)
  qed
qed

lemma process_frames_dicts:
  "dicts acc = dicts acc' \<Longrightarrow>
     map_sum id dicts (process_frames m n i frames acc)
       = map_sum id dicts (process_frames m n' i' frames acc')"
proof (induction frames arbitrary: acc acc' i i')
  case Nil
  then show ?case by simp
next
  case (Cons fr frames)
  obtain image_url attempt where fr: "fr = (image_url, attempt)" by (cases fr)
  show ?case
  proof (cases attempt)
    case (Raised e)
    show ?thesis
    proof (cases e)
      case (RequestException t)
      have "dicts (acc\<lparr>printed := printed acc @ [processing_line i n image_url,
            fetch_error_line image_url t]\<rparr>)
          = dicts (acc'\<lparr>printed := printed acc' @ [processing_line i' n' image_url,
            fetch_error_line image_url t]\<rparr>)"
        using Cons.prems by (simp add: dicts_printed)
      from Cons.IH[OF this] show ?thesis
        by (simp add: fr Raised RequestException)
    qed (simp_all add: fr Raised)
  next
    case (Returned boxes)
    let ?a = "acc\<lparr>printed := printed acc @ [processing_line i n image_url]\<rparr>"
    let ?a' = "acc'\<lparr>printed := printed acc' @ [processing_line i' n' image_url]\<rparr>"
    have "dicts ?a = dicts ?a'" using Cons.prems by (simp add: dicts_printed)
    then have eq: "map_sum id dicts (record_boxes m boxes ?a)
        = map_sum id dicts (record_boxes m boxes ?a')"
      by (rule record_boxes_dicts)
    show ?thesis
    proof (cases "record_boxes m boxes ?a")
      case (Inl e)
      from map_sum_eq_Inl[OF eq Inl] have "record_boxes m boxes ?a' = Inl e" .
      with Inl show ?thesis by (simp add: fr Returned)
    next
      case (Inr acc2)
      from map_sum_eq_Inr[OF eq Inr] obtain acc2' where
        r': "record_boxes m boxes ?a' = Inr acc2'" and d: "dicts acc2' = dicts acc2"
        by (elim exE conjE)
      from Cons.IH[OF d[symmetric]] Inr r' show ?thesis
        by (simp add: fr Returned)
    qed
  qed
qed

lemma process_frames_append:
  "process_frames m n i (xs @ ys) acc =
     (case process_frames m n i xs acc of
        Inl e \<Rightarrow> Inl e
      | Inr a \<Rightarrow> process_frames m n (i + length xs) ys a)"
proof (induction xs arbitrary: i acc)
  case Nil
  show ?case by simp
next
  case (Cons fr xs)
  obtain image_url attempt where fr: "fr = (image_url, attempt)" by (cases fr)
  show ?case
  proof (cases attempt)
    case (Raised e)
    then show ?thesis by (cases e) (simp_all add: fr Cons.IH split: sum.splits)
  next
    case (Returned boxes)
    then show ?thesis by (simp add: fr Cons.IH split: sum.splits)
  qed
qed

lemma build_report_dicts:
  "dicts acc = dicts acc' \<Longrightarrow> build_report rt acc manifest = build_report rt acc' manifest"
  by (simp add: build_report_def dicts_def)

lemma analyze_dicts:
  assumes "map_sum id dicts (accumulate m frames) = map_sum id dicts (accumulate m frames')"
  shows "analyze_video_background rt m frames manifest = analyze_video_background rt m frames' manifest"
proof (cases "accumulate m frames")
  case (Inl e)
  from map_sum_eq_Inl[OF assms Inl] have "accumulate m frames' = Inl e" .
  with Inl show ?thesis by (simp add: analyze_video_background_def)
next
  case (Inr acc)
  from map_sum_eq_Inr[OF assms Inr] obtain acc' where
    a': "accumulate m frames' = Inr acc'" and d: "dicts acc' = dicts acc"
    by (elim exE conjE)
  from build_report_dicts[OF d] Inr a' show ?thesis
    by (simp add: analyze_video_background_def)
qed

lemma skip_dicts:
  assumes "dicts acc = dicts acc'"
  shows "map_sum id dicts
           (process_frames m n i (before @ (image_url, Raised (RequestException e)) # after) acc)
         = map_sum id dicts (process_frames m n' i' (before @ after) acc')"
proof -
  have eq: "map_sum id dicts (process_frames m n i before acc)
      = map_sum id dicts (process_frames m n' i' before acc')"
    using assms by (rule process_frames_dicts)
  show ?thesis
  proof (cases "process_frames m n i before acc")
    case (Inl x)
    from map_sum_eq_Inl[OF eq Inl] have "process_frames m n' i' before acc' = Inl x" .
    with Inl show ?thesis by (simp add: process_frames_append)
  next
    case (Inr a)
    from map_sum_eq_Inr[OF eq Inr] obtain a' where
      r': "process_frames m n' i' before acc' = Inr a'" and d: "dicts a' = dicts a"
      by (elim exE conjE)
    have "dicts (a\<lparr>printed := printed a @ [processing_line (i + length before) n image_url,
          fetch_error_line image_url e]\<rparr>) = dicts a'"
      using d by (simp add: dicts_printed)
    from process_frames_dicts[OF this] Inr r' show ?thesis
      by (simp add: process_frames_append)
  qed
qed

subsection \<open>The second example run\<close>

lemma rounding_accumulates: "\<exists>acc. accumulate example_model rounding_frames = Inr acc"
  by (simp add: accumulate_def example_model_def rounding_frames_def record_detection_def)

lemma rounding_detections:
  "detections example_model rounding_frames =
     [(''sofa'', 13 / 16), (''chair'', 5 / 8), (''chair'', 7 / 8)]"
  by (simp add: detections_def example_model_def rounding_frames_def)

subsection \<open>The text of an asset mismatch\<close>

lemma asset_mismatches_text:
  "asset_mismatches declared detected =
     concat (map (\<lambda>(asset, declared_count).
                    if declared_count = detected asset then []
                    else [''Declared '' @ [CHR 0x27] @ asset @ '': '' @ str_int declared_count
                            @ [CHR 0x27] @ '' but detected '' @ [CHR 0x27] @ asset @ '': ''
                            @ str_int (detected asset) @ [CHR 0x27]])
                 declared)"
  unfolding asset_mismatches_def asset_mismatch_def quote_def by (rule refl)

subsection \<open>An exception the frame loop does not catch\<close>

lemma other_exception_propagates:
  assumes "\<forall>t. e \<noteq> RequestException t"
    and "accumulate m before = Inr acc"
  shows "accumulate m (before @ (image_url, Raised e) # after) = Inl e"
proof -
  let ?n = "length (before @ (image_url, Raised e) # after)"
  let ?start = "\<lambda>k. \<lparr>all_detected_items = [], all_detected_counts = [],
      printed = [analyzing_line k]\<rparr>"
  have "dicts (?start (length before)) = dicts (?start ?n)" by (simp add: dicts_def)
  from process_frames_dicts[OF this, of m "length before" 0 before ?n 0]
  have eq: "map_sum id dicts (process_frames m (length before) 0 before (?start (length before)))
      = map_sum id dicts (process_frames m ?n 0 before (?start ?n))" .
  have "process_frames m (length before) 0 before (?start (length before)) = Inr acc"
    using assms(2) by (simp only: accumulate_def)
  from map_sum_eq_Inr[OF eq this] obtain acc' where
    b: "process_frames m ?n 0 before (?start ?n) = Inr acc'"
    by (elim exE conjE)
  have step: "process_frames m ?n (0 + length before) ((image_url, Raised e) # after) acc' = Inl e"
    using assms(1) by (cases e) simp_all
  have "process_frames m ?n 0 (before @ (image_url, Raised e) # after) (?start ?n) = Inl e"
    unfolding process_frames_append b using step by simp
  then show ?thesis by (simp only: accumulate_def)
qed

subsection \<open>The image search and a scenario without frames\<close>

lemma search_photos_request_exception:
  "search_photos (Raised (RequestException e)) = Inl (RequestException e)"
  by (simp add: search_photos_def)

lemma search_photos_missing_results:
  "search_photos (Returned (JObject [(''total'', JNumber 0)])) = Inl (KeyError ''results'')"
  by (simp add: search_photos_def)


section \<open>The claims\<close>

text \<open>
  C1. In a run whose frame loop returns, the report is produced and its environment is
  the first rule of \<open>env_rules\<close> (Home, Office, Shop, in this order) whose labels
  intersect the detected labels, \<^verbatim>\<open>"Uncategorized"\<close> when there is none. The same
  holds of the classifier on any list of rules, and two lists of rules whose
  intersecting rules are the same in the same order (so any reordering of the rules
  that do not intersect) give the same environment and the same confidence.
\<close>

theorem first_intersecting_rule_wins:
  assumes "accumulate m frames = Inr acc"
  shows "\<exists>r. analyze_video_background rt m frames manifest = Inr r \<and>
           detected_environment (analysis_results r) =
             (case find (intersects (detected_labels (detections m frames))) env_rules of
                None \<Rightarrow> ''Uncategorized''
              | Some rule \<Rightarrow> fst rule) \<and>
           (detected_environment (analysis_results r), environment_confidence (analysis_results r))
             = classify rt env_rules (all_detected_items acc) (all_detected_counts acc) \<and>
           (\<forall>rules. fst (classify rt rules (all_detected_items acc) (all_detected_counts acc)) =
              (case find (intersects (detected_labels (detections m frames))) rules of
                 None \<Rightarrow> ''Uncategorized''
               | Some rule \<Rightarrow> fst rule)) \<and>
           (\<forall>rules rules'.
              filter (intersects (detected_labels (detections m frames))) rules'
                = filter (intersects (detected_labels (detections m frames))) rules \<longrightarrow>
              classify rt rules' (all_detected_items acc) (all_detected_counts acc)
                = classify rt rules (all_detected_items acc) (all_detected_counts acc))"
proof -
  let ?ds = "detections m frames"
  let ?P = "intersects (detected_labels ?ds)"
  let ?its = "all_detected_items acc"
  let ?cts = "all_detected_counts acc"
  have g: "grouped ?ds acc" using assms by (rule grouped_accumulate)
  have first: "fst (classify rt rules ?its ?cts) =
      (case find ?P rules of None \<Rightarrow> ''Uncategorized'' | Some rule \<Rightarrow> fst rule)" for rules
    by (simp add: classify_grouped[OF g] split: option.splits)
  have reorder: "classify rt rules' ?its ?cts = classify rt rules ?its ?cts"
    if "filter ?P rules' = filter ?P rules" for rules rules'
  proof -
    from that have "find ?P rules' = find ?P rules"
      by (simp add: find_filter_hd)
    then show ?thesis by (simp add: classify_grouped[OF g])
  qed
  have a: "analyze_video_background rt m frames manifest = build_report rt acc manifest"
    using assms by (rule analyze_of_accumulate)
  obtain r where r: "build_report rt acc manifest = Inr r"
    and e: "detected_environment (analysis_results r) = fst (classify rt env_rules ?its ?cts)"
    and c: "environment_confidence (analysis_results r) = snd (classify rt env_rules ?its ?cts)"
    using build_report_grouped[OF g, where manifest = manifest and rt = rt] by simp
  show ?thesis
  proof (intro exI conjI allI impI)
    show "analyze_video_background rt m frames manifest = Inr r" using a r by simp
    show "detected_environment (analysis_results r) =
        (case find ?P env_rules of None \<Rightarrow> ''Uncategorized'' | Some rule \<Rightarrow> fst rule)"
      using e first[of env_rules] by simp
    show "(detected_environment (analysis_results r), environment_confidence (analysis_results r))
        = classify rt env_rules ?its ?cts"
      using e c by simp
    show "fst (classify rt rules ?its ?cts) =
        (case find ?P rules of None \<Rightarrow> ''Uncategorized'' | Some rule \<Rightarrow> fst rule)" for rules
      by (rule first)
    show "classify rt rules' ?its ?cts = classify rt rules ?its ?cts"
      if "filter ?P rules' = filter ?P rules" for rules rules'
      using that by (rule reorder)
  qed
qed

theorem first_intersecting_rule_wins_witness:
  "\<exists>acc. accumulate example_model example_frames = Inr acc \<and>
     (\<exists>r. analyze_video_background exact_arithmetic example_model example_frames example_declared = Inr r \<and>
        detected_environment (analysis_results r) = ''Home'' \<and>
        classify exact_arithmetic (last env_rules # butlast env_rules) (all_detected_items acc)
            (all_detected_counts acc)
          = (detected_environment (analysis_results r),
             environment_confidence (analysis_results r)))"
proof -
  let ?P = "intersects (detected_labels (detections example_model example_frames))"
  obtain acc where acc: "accumulate example_model example_frames = Inr acc"
    using example_accumulates by blast
  have home: "(case find ?P env_rules of None \<Rightarrow> ''Uncategorized'' | Some rule \<Rightarrow> fst rule)
      = ''Home''"
    by code_simp
  have same: "filter ?P (last env_rules # butlast env_rules) = filter ?P env_rules"
    by code_simp
  from first_intersecting_rule_wins[OF acc, where manifest = example_declared and rt = exact_arithmetic] obtain r where
    r: "analyze_video_background exact_arithmetic example_model example_frames example_declared = Inr r"
    and e: "detected_environment (analysis_results r) =
        (case find ?P env_rules of None \<Rightarrow> ''Uncategorized'' | Some rule \<Rightarrow> fst rule)"
    and c: "(detected_environment (analysis_results r), environment_confidence (analysis_results r))
        = classify exact_arithmetic env_rules (all_detected_items acc) (all_detected_counts acc)"
    and reorder: "\<forall>rules rules'. filter ?P rules' = filter ?P rules \<longrightarrow>
        classify exact_arithmetic rules' (all_detected_items acc) (all_detected_counts acc)
          = classify exact_arithmetic rules (all_detected_items acc) (all_detected_counts acc)"
    by blast
  from reorder same have "classify exact_arithmetic (last env_rules # butlast env_rules) (all_detected_items acc)
      (all_detected_counts acc) = classify exact_arithmetic env_rules (all_detected_items acc) (all_detected_counts acc)"
    by blast
  with acc r e c home show ?thesis by auto
qed

text \<open>
  C2. When some rule intersects the detected labels and \<open>(env, items)\<close> is the first
  such rule, the report's environment is \<open>env\<close> and its confidence is computed from
  exactly the labels of \<open>items\<close> that were detected: the sum, over these labels, of the
  sum of the label's recorded confidences, divided by the sum of the labels' counts
  (which is positive), and the quotient rounded with \<^verbatim>\<open>round\<close> to 2 digits. This holds
  for every arithmetic of floats.
\<close>

theorem environment_confidence_weighted_mean:
  assumes "accumulate m frames = Inr acc"
    and "find (intersects (detected_labels (detections m frames))) env_rules = Some (env, items)"
  shows "\<exists>r. analyze_video_background rt m frames manifest = Inr r \<and>
           detected_environment (analysis_results r) = env \<and>
           (let ds = detections m frames;
                common = filter (\<lambda>label. label \<in> detected_labels ds) items
            in set common = set items \<inter> detected_labels ds \<and>
               0 < sum_list (map (detected_count ds) common) \<and>
               environment_confidence (analysis_results r) =
                 py_round rt
                   (py_div rt
                      (py_sum rt (map (\<lambda>label. py_sum rt (recorded ds label)) common))
                      (sum_list (map (detected_count ds) common)))
                   2)"
proof -
  let ?ds = "detections m frames"
  let ?common = "filter (\<lambda>label. label \<in> detected_labels ?ds) items"
  have g: "grouped ?ds acc" using assms(1) by (rule grouped_accumulate)
  have cl: "classify rt env_rules (all_detected_items acc) (all_detected_counts acc)
      = (env, py_round rt (weighted_mean rt ?ds ?common) 2)"
    by (simp add: classify_grouped[OF g] assms(2))
  from assms(2) have "intersects (detected_labels ?ds) (env, items)"
    by (auto simp: find_Some_iff)
  then have "?common \<noteq> []" by (simp add: intersects_filter)
  then have pos: "0 < sum_list (map (detected_count ?ds) ?common)"
    by (rule sum_counts_positive) auto
  have a: "analyze_video_background rt m frames manifest = build_report rt acc manifest"
    using assms(1) by (rule analyze_of_accumulate)
  obtain r where r: "build_report rt acc manifest = Inr r"
    and e: "detected_environment (analysis_results r)
        = fst (classify rt env_rules (all_detected_items acc) (all_detected_counts acc))"
    and c: "environment_confidence (analysis_results r)
        = snd (classify rt env_rules (all_detected_items acc) (all_detected_counts acc))"
    using build_report_grouped[OF g, where manifest = manifest and rt = rt] by simp
  have "set ?common = set items \<inter> detected_labels ?ds" by auto
  with a r e c cl pos show ?thesis
    by (simp add: Let_def weighted_mean_def)
qed

theorem environment_confidence_weighted_mean_witness:
  "\<exists>acc. accumulate example_model rounding_frames = Inr acc \<and>
     find (intersects (detected_labels (detections example_model rounding_frames))) env_rules
       = Some (env_rules ! 0) \<and>
     (\<exists>r. analyze_video_background exact_arithmetic example_model rounding_frames
            example_declared = Inr r \<and>
        detected_environment (analysis_results r) = ''Home'' \<and>
        environment_confidence (analysis_results r) = 77 / 100)"
proof -
  let ?ds = "detections example_model rounding_frames"
  let ?items = "[''bed'', ''sofa'', ''tv'', ''refrigerator'', ''microwave'', ''chair'',
                 ''dining table'']"
  let ?common = "filter (\<lambda>label. label \<in> detected_labels ?ds) ?items"
  obtain acc where acc: "accumulate example_model rounding_frames = Inr acc"
    using rounding_accumulates by blast
  have f: "find (intersects (detected_labels ?ds)) env_rules = Some (''Home'', ?items)"
    by code_simp
  have z: "env_rules ! 0 = (''Home'', ?items)" by (simp add: env_rules_def)
  have common: "?common = [''sofa'', ''chair'']"
    by (simp add: rounding_detections detected_labels_def)
  have v: "py_round exact_arithmetic
      (py_div exact_arithmetic
         (py_sum exact_arithmetic
            (map (\<lambda>label. py_sum exact_arithmetic (recorded ?ds label)) [''sofa'', ''chair'']))
         (sum_list (map (detected_count ?ds) [''sofa'', ''chair''])))
      2 = 77 / 100"
    by (simp add: rounding_detections recorded_def detected_count_def exact_arithmetic_def
        round_half_even_def)
  from environment_confidence_weighted_mean[OF acc f, where manifest = example_declared
      and rt = exact_arithmetic] obtain r where
    r: "analyze_video_background exact_arithmetic example_model rounding_frames
          example_declared = Inr r"
    and e: "detected_environment (analysis_results r) = ''Home''"
    and c: "environment_confidence (analysis_results r) =
        py_round exact_arithmetic
          (py_div exact_arithmetic
             (py_sum exact_arithmetic
                (map (\<lambda>label. py_sum exact_arithmetic (recorded ?ds label)) ?common))
             (sum_list (map (detected_count ?ds) ?common)))
          2"
    unfolding Let_def by blast
  from c have "environment_confidence (analysis_results r) = 77 / 100"
    unfolding common v .
  with acc f z r e show ?thesis by metis
qed

text \<open>
  C3. Every row of \<open>detected_objects\<close> belongs to a detected label: its item is the
  label in title case, its count is the number of detections of the label and is at
  least 1, and its average is the sum of the label's recorded confidences divided by
  the count, rounded with \<^verbatim>\<open>round\<close> to 2 digits. For a label detected once, at a
  confidence \<open>c\<close> that \<^verbatim>\<open>sum([c])\<close>, \<^verbatim>\<open>c / 1\<close> and \<^verbatim>\<open>round(c, 2)\<close> return unchanged
  (as they do for 0.9), the count is 1 and the average is \<open>c\<close>.
\<close>

theorem detected_objects_rows:
  assumes "analyze_video_background rt m frames manifest = Inr r"
    and "row \<in> set (detected_objects (analysis_results r))"
  shows "\<exists>label. label \<in> detected_labels (detections m frames) \<and>
           item row = title label \<and>
           count row = detected_count (detections m frames) label \<and>
           1 \<le> count row \<and>
           avg_confidence row =
             py_round rt
               (py_div rt (py_sum rt (recorded (detections m frames) label)) (count row)) 2 \<and>
           (\<forall>c. recorded (detections m frames) label = [c] \<and>
                py_sum rt [c] = c \<and> py_div rt c 1 = c \<and> py_round rt c 2 = c
              \<longrightarrow> count row = 1 \<and> avg_confidence row = c)"
proof -
  let ?ds = "detections m frames"
  from assms(1) obtain acc where acc: "accumulate m frames = Inr acc"
    and b: "build_report rt acc manifest = Inr r"
    using analyze_accumulated by blast
  have g: "grouped ?ds acc" using acc by (rule grouped_accumulate)
  from b have "detected_objects (analysis_results r)
      = map (row_of rt (all_detected_counts acc)) (all_detected_items acc)"
    using build_report_grouped[OF g, where manifest = manifest and rt = rt] by auto
  with assms(2) obtain label cs where
    entry: "(label, cs) \<in> set (all_detected_items acc)"
    and row: "row = row_of rt (all_detected_counts acc) (label, cs)"
    by auto
  from grouped_entry[OF g entry] have l: "label \<in> detected_labels ?ds"
    and cs: "cs = recorded ?ds label" by simp_all
  have cnt: "count row = detected_count ?ds label"
    using g by (simp add: row row_of_def grouped_def)
  have len: "int (length cs) = count row"
    by (simp add: cnt detected_count_def cs)
  have "avg_confidence row = py_round rt (py_div rt (py_sum rt cs) (int (length cs))) 2"
    by (simp add: row row_of_def)
  then have avg: "avg_confidence row =
      py_round rt (py_div rt (py_sum rt (recorded ?ds label)) (count row)) 2"
    by (simp add: len[symmetric] cs)
  have once: "count row = 1 \<and> avg_confidence row = c"
    if "recorded ?ds label = [c] \<and> py_sum rt [c] = c \<and> py_div rt c 1 = c \<and> py_round rt c 2 = c"
    for c
  proof -
    from that have "count row = 1" by (simp add: cnt detected_count_def)
    with avg that show ?thesis by simp
  qed
  have it: "item row = title label" by (simp add: row row_of_def)
  have pos: "1 \<le> count row" using detected_count_positive[OF l] by (simp only: cnt)
  show ?thesis
  proof (intro exI[of _ label] conjI allI impI)
    show "label \<in> detected_labels ?ds" by (rule l)
    show "item row = title label" by (rule it)
    show "count row = detected_count ?ds label" by (rule cnt)
    show "1 \<le> count row" by (rule pos)
    show "avg_confidence row =
        py_round rt (py_div rt (py_sum rt (recorded ?ds label)) (count row)) 2"
      by (rule avg)
    show "count row = 1"
      if "recorded ?ds label = [c] \<and> py_sum rt [c] = c \<and> py_div rt c 1 = c \<and>
          py_round rt c 2 = c" for c
      using once[OF that] by (rule conjunct1)
    show "avg_confidence row = c"
      if "recorded ?ds label = [c] \<and> py_sum rt [c] = c \<and> py_div rt c 1 = c \<and>
          py_round rt c 2 = c" for c
      using once[OF that] by (rule conjunct2)
  qed
qed

theorem detected_objects_rows_witness:
  "(\<exists>r. analyze_video_background exact_arithmetic example_model rounding_frames
          example_declared = Inr r \<and>
      detected_objects (analysis_results r) ! 0 \<in> set (detected_objects (analysis_results r)) \<and>
      recorded (detections example_model rounding_frames) ''sofa'' = [13 / 16] \<and>
      item (detected_objects (analysis_results r) ! 0) = title ''sofa'' \<and>
      count (detected_objects (analysis_results r) ! 0) = 1 \<and>
      avg_confidence (detected_objects (analysis_results r) ! 0) = 81 / 100) \<and>
   (\<exists>r. analyze_video_background exact_arithmetic example_model example_frames
          example_declared = Inr r \<and>
      detected_objects (analysis_results r) ! 0 \<in> set (detected_objects (analysis_results r)) \<and>
      recorded (detections example_model example_frames) ''sofa'' = [9 / 10] \<and>
      py_sum exact_arithmetic [9 / 10] = 9 / 10 \<and>
      py_div exact_arithmetic (9 / 10) 1 = 9 / 10 \<and>
      py_round exact_arithmetic (9 / 10) 2 = 9 / 10 \<and>
      item (detected_objects (analysis_results r) ! 0) = title ''sofa'' \<and>
      avg_confidence (detected_objects (analysis_results r) ! 0) = 9 / 10)"
proof (rule conjI)
  let ?ds = "detections example_model rounding_frames"
  define r where "r =
    \<lparr>declared_data = example_declared,
     analysis_results =
       \<lparr>detected_environment = ''Home'', environment_confidence = 77 / 100,
        detected_objects =
          [\<lparr>item = ''Sofa'', count = 1, avg_confidence = 81 / 100\<rparr>,
           \<lparr>item = ''Chair'', count = 2, avg_confidence = 3 / 4\<rparr>]\<rparr>,
     mismatch_highlight = [], risk_flag = ''Pass''\<rparr>"
  let ?row = "detected_objects (analysis_results r) ! 0"
  have a: "analyze_video_background exact_arithmetic example_model rounding_frames
      example_declared = Inr r"
    unfolding r_def by code_simp
  have m: "?row \<in> set (detected_objects (analysis_results r))"
    by (simp add: r_def)
  have k1: "count ?row = 1" by (simp add: r_def)
  from detected_objects_rows[OF a m] obtain label where
    i: "label \<in> detected_labels ?ds"
    and l: "item ?row = title label"
    and k: "count ?row = detected_count ?ds label"
    and v: "avg_confidence ?row =
        py_round exact_arithmetic
          (py_div exact_arithmetic (py_sum exact_arithmetic (recorded ?ds label)) (count ?row)) 2"
    by blast
  from i have "label = ''sofa'' \<or> label = ''chair''"
    by (auto simp: rounding_detections detected_labels_def)
  moreover have "detected_count ?ds ''chair'' = 2"
    by (simp add: rounding_detections detected_count_def recorded_def)
  ultimately have sofa: "label = ''sofa''" using k k1 by auto
  have rec: "recorded ?ds ''sofa'' = [13 / 16]"
    by (simp add: rounding_detections recorded_def)
  have "py_round exact_arithmetic
      (py_div exact_arithmetic (py_sum exact_arithmetic [13 / 16]) 1) 2 = 81 / 100"
    by (simp add: exact_arithmetic_def round_half_even_def)
  with v have avg: "avg_confidence ?row = 81 / 100"
    unfolding sofa rec k1 by simp
  from l have it: "item ?row = title ''sofa''" unfolding sofa .
  from a m rec it k1 avg
  show "\<exists>r. analyze_video_background exact_arithmetic example_model rounding_frames
          example_declared = Inr r \<and>
      detected_objects (analysis_results r) ! 0 \<in> set (detected_objects (analysis_results r)) \<and>
      recorded (detections example_model rounding_frames) ''sofa'' = [13 / 16] \<and>
      item (detected_objects (analysis_results r) ! 0) = title ''sofa'' \<and>
      count (detected_objects (analysis_results r) ! 0) = 1 \<and>
      avg_confidence (detected_objects (analysis_results r) ! 0) = 81 / 100"
    by (intro exI[of _ r] conjI)
next
  let ?ds = "detections example_model example_frames"
  define r where "r =
    \<lparr>declared_data = example_declared,
     analysis_results =
       \<lparr>detected_environment = ''Home'', environment_confidence = 4 / 5,
        detected_objects =
          [\<lparr>item = ''Sofa'', count = 1, avg_confidence = 9 / 10\<rparr>,
           \<lparr>item = ''Chair'', count = 2, avg_confidence = 3 / 4\<rparr>]\<rparr>,
     mismatch_highlight = [], risk_flag = ''Pass''\<rparr>"
  let ?row = "detected_objects (analysis_results r) ! 0"
  have a: "analyze_video_background exact_arithmetic example_model example_frames
      example_declared = Inr r"
    unfolding r_def by code_simp
  have m: "?row \<in> set (detected_objects (analysis_results r))"
    by (simp add: r_def)
  have k1: "count ?row = 1" by (simp add: r_def)
  from detected_objects_rows[OF a m] obtain label where
    i: "label \<in> detected_labels ?ds"
    and l: "item ?row = title label"
    and k: "count ?row = detected_count ?ds label"
    and once: "\<forall>c. recorded ?ds label = [c] \<and> py_sum exact_arithmetic [c] = c \<and>
        py_div exact_arithmetic c 1 = c \<and> py_round exact_arithmetic c 2 = c
        \<longrightarrow> count ?row = 1 \<and> avg_confidence ?row = c"
    by blast
  from i have "label = ''sofa'' \<or> label = ''chair''"
    by (auto simp: example_detections detected_labels_def)
  moreover have "detected_count ?ds ''chair'' = 2" by (rule example_counts)
  ultimately have sofa: "label = ''sofa''" using k k1 by auto
  have rec: "recorded ?ds ''sofa'' = [9 / 10]"
    by (simp add: example_detections recorded_def)
  have s: "py_sum exact_arithmetic [9 / 10] = 9 / 10"
    by (simp add: exact_arithmetic_def)
  have d: "py_div exact_arithmetic (9 / 10) 1 = 9 / 10"
    by (simp add: exact_arithmetic_def)
  have ro: "py_round exact_arithmetic (9 / 10) 2 = 9 / 10"
    by (simp add: exact_arithmetic_def round_half_even_def)
  from once[rule_format, of "9 / 10"] rec s d ro have avg: "avg_confidence ?row = 9 / 10"
    unfolding sofa by blast
  from l have it: "item ?row = title ''sofa''" unfolding sofa .
  from a m rec s d ro it avg
  show "\<exists>r. analyze_video_background exact_arithmetic example_model example_frames
          example_declared = Inr r \<and>
      detected_objects (analysis_results r) ! 0 \<in> set (detected_objects (analysis_results r)) \<and>
      recorded (detections example_model example_frames) ''sofa'' = [9 / 10] \<and>
      py_sum exact_arithmetic [9 / 10] = 9 / 10 \<and>
      py_div exact_arithmetic (9 / 10) 1 = 9 / 10 \<and>
      py_round exact_arithmetic (9 / 10) 2 = 9 / 10 \<and>
      item (detected_objects (analysis_results r) ! 0) = title ''sofa'' \<and>
      avg_confidence (detected_objects (analysis_results r) ! 0) = 9 / 10"
    by (intro exI[of _ r] conjI)
qed

text \<open>
  C4. When the frame loop returns and no detection was accumulated, both accumulators
  are empty, the report is produced, and its environment is \<^verbatim>\<open>"Uncategorized"\<close> with
  confidence 0.
\<close>

theorem no_detections_uncategorized:
  assumes "accumulate m frames = Inr acc" and "detections m frames = []"
  shows "all_detected_items acc = [] \<and> all_detected_counts acc = [] \<and>
         (\<exists>r. analyze_video_background rt m frames manifest = Inr r \<and>
            detected_environment (analysis_results r) = ''Uncategorized'' \<and>
            environment_confidence (analysis_results r) = 0)"
proof -
  have g: "grouped [] acc" using grouped_accumulate[OF assms(1)] assms(2) by simp
  then have its: "all_detected_items acc = []" and cts: "all_detected_counts acc = []"
    by (auto simp: grouped_def keys_def detected_labels_def)
  have "find (intersects (detected_labels [])) env_rules = None"
    by (simp add: find_None_iff intersects_def detected_labels_def)
  then have cl: "classify rt env_rules (all_detected_items acc) (all_detected_counts acc)
      = (''Uncategorized'', 0)"
    by (simp add: classify_grouped[OF g])
  have a: "analyze_video_background rt m frames manifest = build_report rt acc manifest"
    using assms(1) by (rule analyze_of_accumulate)
  from a its cts cl build_report_grouped[OF g, where manifest = manifest and rt = rt] show ?thesis
    by simp
qed

theorem no_detections_uncategorized_witness:
  "\<exists>acc. accumulate example_model
            [(''https://images.example/1'', Raised (RequestException ''timed out'')),
             (''https://images.example/2'', Returned [])] = Inr acc \<and>
     detections example_model
       [(''https://images.example/1'', Raised (RequestException ''timed out'')),
        (''https://images.example/2'', Returned [])] = [] \<and>
     (\<exists>r. analyze_video_background exact_arithmetic example_model
            [(''https://images.example/1'', Raised (RequestException ''timed out'')),
             (''https://images.example/2'', Returned [])] example_declared = Inr r \<and>
        detected_environment (analysis_results r) = ''Uncategorized'' \<and>
        environment_confidence (analysis_results r) = 0)"
proof -
  let ?frames = "[(''https://images.example/1'', Raised (RequestException ''timed out'')),
                  (''https://images.example/2'', Returned [])]"
  have "\<exists>acc. accumulate example_model ?frames = Inr acc"
    by (simp add: accumulate_def)
  then obtain acc where acc: "accumulate example_model ?frames = Inr acc" by blast
  have d: "detections example_model ?frames = []" by (simp add: detections_def)
  from no_detections_uncategorized[OF acc d, where manifest = example_declared and rt = exact_arithmetic] acc d show ?thesis
    by blast
qed

text \<open>
  C5. The mismatch list of a report is what the environment check appended, followed
  by one string for each pair of the declared assets, in their order, whose declared
  count is not the detected count of that label; the detected count of a label that
  was never detected is 0. The string reads
  \<^verbatim>\<open>Declared '<asset>: <declared>' but detected '<asset>: <detected>'\<close> with both counts
  in decimal, a pair with equal counts gives none, and one unequal pair is enough for
  the risk flag \<^verbatim>\<open>"Review Required"\<close>.
\<close>

theorem asset_counts_compared:
  assumes "analyze_video_background rt m frames manifest = Inr r"
  shows "mismatch_highlight r =
           fst (compare_environment (environment manifest)
                  (detected_environment (analysis_results r)) ([], ''Pass''))
             @ concat (map (\<lambda>(asset, declared_count).
                    if declared_count = detected_count (detections m frames) asset then []
                    else [''Declared '' @ [CHR 0x27] @ asset @ '': '' @ str_int declared_count
                            @ [CHR 0x27] @ '' but detected '' @ [CHR 0x27] @ asset @ '': ''
                            @ str_int (detected_count (detections m frames) asset) @ [CHR 0x27]])
                 (declared_assets manifest)) \<and>
         ((\<exists>p \<in> set (declared_assets manifest).
              snd p \<noteq> detected_count (detections m frames) (fst p))
            \<longrightarrow> risk_flag r = ''Review Required'') \<and>
         (\<forall>label. label \<notin> detected_labels (detections m frames)
            \<longrightarrow> detected_count (detections m frames) label = 0)"
proof (intro conjI impI allI)
  show "mismatch_highlight r =
           fst (compare_environment (environment manifest)
                  (detected_environment (analysis_results r)) ([], ''Pass''))
             @ concat (map (\<lambda>(asset, declared_count).
                    if declared_count = detected_count (detections m frames) asset then []
                    else [''Declared '' @ [CHR 0x27] @ asset @ '': '' @ str_int declared_count
                            @ [CHR 0x27] @ '' but detected '' @ [CHR 0x27] @ asset @ '': ''
                            @ str_int (detected_count (detections m frames) asset) @ [CHR 0x27]])
                 (declared_assets manifest))"
    using analyze_report(1)[OF assms] by (simp only: asset_mismatches_text)
  show "risk_flag r = ''Review Required''"
    if "\<exists>p \<in> set (declared_assets manifest).
          snd p \<noteq> detected_count (detections m frames) (fst p)"
  proof -
    from that have "asset_mismatches (declared_assets manifest)
        (detected_count (detections m frames)) \<noteq> []"
      by (simp only: asset_mismatches_nonempty)
    then show ?thesis using analyze_report(2)[OF assms] by simp
  qed
  show "detected_count (detections m frames) label = 0"
    if "label \<notin> detected_labels (detections m frames)" for label
    using that by (simp add: detected_count_def recorded_empty)
qed

theorem asset_counts_compared_witness:
  "\<exists>r. analyze_video_background exact_arithmetic example_model example_frames
          \<lparr>environment = Some ''Home'',
           assets = Some [(''refrigerator'', 12), (''sofa'', 1), (''chair'', - 3)]\<rparr> = Inr r \<and>
     mismatch_highlight r =
       [''Declared 'refrigerator: 12' but detected 'refrigerator: 0'' @ [CHR 0x27],
        ''Declared 'chair: -3' but detected 'chair: 2'' @ [CHR 0x27]] \<and>
     risk_flag r = ''Review Required''"
proof -
  let ?ds = "detections example_model example_frames"
  let ?manifest = "\<lparr>environment = Some ''Home'',
      assets = Some [(''refrigerator'', 12), (''sofa'', 1), (''chair'', - 3)]\<rparr>"
  let ?text = "[''Declared 'refrigerator: 12' but detected 'refrigerator: 0'' @ [CHR 0x27],
      ''Declared 'chair: -3' but detected 'chair: 2'' @ [CHR 0x27]]"
  define r where "r =
    \<lparr>declared_data = ?manifest,
     analysis_results =
       \<lparr>detected_environment = ''Home'', environment_confidence = 4 / 5,
        detected_objects =
          [\<lparr>item = ''Sofa'', count = 1, avg_confidence = 9 / 10\<rparr>,
           \<lparr>item = ''Chair'', count = 2, avg_confidence = 3 / 4\<rparr>]\<rparr>,
     mismatch_highlight = ?text,
     risk_flag = ''Review Required''\<rparr>"
  have a: "analyze_video_background exact_arithmetic example_model example_frames ?manifest
      = Inr r"
    unfolding r_def by code_simp
  have h: "\<exists>p \<in> set (declared_assets ?manifest). snd p \<noteq> detected_count ?ds (fst p)"
    by (simp add: declared_assets_def example_counts)
  have e: "fst (compare_environment (environment ?manifest)
      (detected_environment (analysis_results r)) ([], ''Pass'')) = []"
    unfolding r_def by code_simp
  have n12: "str_int 12 = ''12''" by code_simp
  have n3: "str_int (- 3) = ''-3''" by code_simp
  have n0: "str_int 0 = ''0''" by code_simp
  have n2: "str_int 2 = ''2''" by code_simp
  have s: "concat (map (\<lambda>(asset, declared_count).
                    if declared_count = detected_count ?ds asset then []
                    else [''Declared '' @ [CHR 0x27] @ asset @ '': '' @ str_int declared_count
                            @ [CHR 0x27] @ '' but detected '' @ [CHR 0x27] @ asset @ '': ''
                            @ str_int (detected_count ?ds asset) @ [CHR 0x27]])
                 (declared_assets ?manifest)) = ?text"
    by (simp add: declared_assets_def example_counts n12 n3 n0 n2)
  from asset_counts_compared[OF a] h have f: "risk_flag r = ''Review Required''"
    by blast
  from asset_counts_compared[OF a, THEN conjunct1] have "mismatch_highlight r = ?text"
    unfolding e s by simp
  with a f show ?thesis by (intro exI[of _ r] conjI)
qed

text \<open>
  C6, as stated, fails for a declared environment that is present and empty: the
  empty string differs from every detected environment, and the truthiness guard of
  the source skips the comparison. Here the detected environment is \<^verbatim>\<open>"Home"\<close>.
\<close>

theorem empty_declared_environment_no_mismatch:
  "\<exists>r. analyze_video_background exact_arithmetic example_model example_frames
          \<lparr>environment = Some [], assets = None\<rparr> = Inr r \<and>
     lower [] \<noteq> lower (detected_environment (analysis_results r)) \<and>
     mismatch_highlight r = [] \<and> risk_flag r = ''Pass''"
proof -
  define r where "r =
    \<lparr>declared_data = \<lparr>environment = Some [], assets = None\<rparr>,
     analysis_results =
       \<lparr>detected_environment = ''Home'', environment_confidence = 4 / 5,
        detected_objects =
          [\<lparr>item = ''Sofa'', count = 1, avg_confidence = 9 / 10\<rparr>,
           \<lparr>item = ''Chair'', count = 2, avg_confidence = 3 / 4\<rparr>]\<rparr>,
     mismatch_highlight = [], risk_flag = ''Pass''\<rparr>"
  have a: "analyze_video_background exact_arithmetic example_model example_frames
      \<lparr>environment = Some [], assets = None\<rparr> = Inr r"
    unfolding r_def by code_simp
  have "lower [] \<noteq> lower (detected_environment (analysis_results r))"
    by (simp add: r_def lower_def)
  with a show ?thesis by (intro exI[of _ r]) (simp add: r_def)
qed

text \<open>
  C6, amended. When the declared environment is present and not empty and its lower
  case differs from that of the detected environment, the mismatch list starts with
  the environment mismatch string, the asset mismatch strings follow it and none of
  them is an environment mismatch string, and the risk flag is
  \<^verbatim>\<open>"Review Required"\<close>, whatever the asset counts are.
\<close>

theorem declared_environment_mismatch:
  assumes "analyze_video_background rt m frames manifest = Inr r"
    and "environment manifest = Some d"
    and "d \<noteq> []"
    and "lower d \<noteq> lower (detected_environment (analysis_results r))"
  shows "mismatch_highlight r =
           environment_mismatch d (detected_environment (analysis_results r))
             # asset_mismatches (declared_assets manifest) (detected_count (detections m frames)) \<and>
         risk_flag r = ''Review Required'' \<and>
         (\<forall>s \<in> set (asset_mismatches (declared_assets manifest)
                        (detected_count (detections m frames))).
            \<forall>d' e'. s \<noteq> environment_mismatch d' e')"
proof -
  have env: "compare_environment (environment manifest)
      (detected_environment (analysis_results r)) ([], ''Pass'')
      = ([environment_mismatch d (detected_environment (analysis_results r))], ''Review Required'')"
    using assms(2-4) by (simp add: compare_environment_def)
  from analyze_report[OF assms(1)] env asset_mismatch_not_environment show ?thesis
    by auto
qed

theorem declared_environment_mismatch_witness:
  "\<exists>r. analyze_video_background exact_arithmetic example_model example_frames declared_data_b = Inr r \<and>
     environment declared_data_b = Some ''Shop'' \<and>
     lower ''Shop'' \<noteq> lower (detected_environment (analysis_results r)) \<and>
     mismatch_highlight r =
       [environment_mismatch ''Shop'' ''Home'',
        asset_mismatch ''refrigerator'' 1 0, asset_mismatch ''counter'' 1 0] \<and>
     risk_flag r = ''Review Required''"
proof -
  let ?ds = "detections example_model example_frames"
  define r where "r =
    \<lparr>declared_data = declared_data_b,
     analysis_results =
       \<lparr>detected_environment = ''Home'', environment_confidence = 4 / 5,
        detected_objects =
          [\<lparr>item = ''Sofa'', count = 1, avg_confidence = 9 / 10\<rparr>,
           \<lparr>item = ''Chair'', count = 2, avg_confidence = 3 / 4\<rparr>]\<rparr>,
     mismatch_highlight =
       [environment_mismatch ''Shop'' ''Home'',
        asset_mismatch ''refrigerator'' 1 0, asset_mismatch ''counter'' 1 0],
     risk_flag = ''Review Required''\<rparr>"
  have a: "analyze_video_background exact_arithmetic example_model example_frames declared_data_b = Inr r"
    unfolding r_def by code_simp
  have e: "environment declared_data_b = Some ''Shop''" by (simp add: declared_data_b_def)
  have n: "''Shop'' \<noteq> []" by simp
  have l: "lower ''Shop'' \<noteq> lower (detected_environment (analysis_results r))"
    unfolding r_def by code_simp
  have s: "asset_mismatches (declared_assets declared_data_b) (detected_count ?ds)
      = [asset_mismatch ''refrigerator'' 1 0, asset_mismatch ''counter'' 1 0]"
    by (simp add: asset_mismatches_def declared_assets_def declared_data_b_def example_counts)
  have h: "detected_environment (analysis_results r) = ''Home''" by (simp add: r_def)
  from declared_environment_mismatch[OF a e n l] have
    "mismatch_highlight r = environment_mismatch ''Shop'' (detected_environment (analysis_results r))
       # asset_mismatches (declared_assets declared_data_b) (detected_count ?ds)"
    and "risk_flag r = ''Review Required''"
    by blast+
  with a e l s h show ?thesis by simp
qed

text \<open>
  C7. In every report the risk flag is \<^verbatim>\<open>"Pass"\<close> exactly when the mismatch list is
  empty and \<^verbatim>\<open>"Review Required"\<close> otherwise; it has no other value.
\<close>

theorem risk_flag_iff_mismatches:
  assumes "analyze_video_background rt m frames manifest = Inr r"
  shows "(risk_flag r = ''Pass'' \<longleftrightarrow> mismatch_highlight r = []) \<and>
         (mismatch_highlight r \<noteq> [] \<longrightarrow> risk_flag r = ''Review Required'') \<and>
         (risk_flag r = ''Pass'' \<or> risk_flag r = ''Review Required'')"
proof -
  let ?env = "compare_environment (environment manifest)
      (detected_environment (analysis_results r)) ([], ''Pass'')"
  let ?assets = "asset_mismatches (declared_assets manifest) (detected_count (detections m frames))"
  have env: "?env = ([], ''Pass'') \<or> (\<exists>s. ?env = ([s], ''Review Required''))"
    by (simp add: compare_environment_cases)
  have mm: "mismatch_highlight r = fst ?env @ ?assets"
    using assms by (rule analyze_report(1))
  have fl: "risk_flag r = (if ?assets = [] then snd ?env else ''Review Required'')"
    using assms by (rule analyze_report(2))
  from env show ?thesis
  proof
    assume "?env = ([], ''Pass'')"
    with mm fl show ?thesis by (cases "?assets = []") simp_all
  next
    assume "\<exists>s. ?env = ([s], ''Review Required'')"
    then obtain s where "?env = ([s], ''Review Required'')" by blast
    with mm fl show ?thesis by (cases "?assets = []") simp_all
  qed
qed

theorem risk_flag_iff_mismatches_witness:
  "\<exists>r. analyze_video_background exact_arithmetic example_model example_frames example_declared = Inr r \<and>
     mismatch_highlight r = [] \<and> risk_flag r = ''Pass''"
proof -
  define r where "r =
    \<lparr>declared_data = example_declared,
     analysis_results =
       \<lparr>detected_environment = ''Home'', environment_confidence = 4 / 5,
        detected_objects =
          [\<lparr>item = ''Sofa'', count = 1, avg_confidence = 9 / 10\<rparr>,
           \<lparr>item = ''Chair'', count = 2, avg_confidence = 3 / 4\<rparr>]\<rparr>,
     mismatch_highlight = [], risk_flag = ''Pass''\<rparr>"
  have a: "analyze_video_background exact_arithmetic example_model example_frames example_declared = Inr r"
    unfolding r_def by code_simp
  have m: "mismatch_highlight r = []" by (simp add: r_def)
  from risk_flag_iff_mismatches[OF a] m have "risk_flag r = ''Pass''" by blast
  with a m show ?thesis by blast
qed

text \<open>
  C8, as stated, fails for the detector: an exception raised in the \<^verbatim>\<open>try\<close> block that
  is not a requests exception, as a failing \<^verbatim>\<open>model.predict\<close> raises, is not caught by
  the \<^verbatim>\<open>except\<close> clause. It leaves the function, no report is produced and the
  remaining frame is not processed.
\<close>

theorem predict_failure_aborts:
  "analyze_video_background exact_arithmetic example_model
     [(''https://images.example/1'', Raised (OtherException ''cannot identify image file'')),
      (''https://images.example/3'', Returned [(56, 7 / 10)])]
     example_declared
   = Inl (OtherException ''cannot identify image file'')"
  by (simp add: analyze_video_background_def accumulate_def)

text \<open>
  C8, amended. A requests exception raised in the \<^verbatim>\<open>try\<close> block of a frame is not
  fatal: the analysis gives what it gives without that frame (the same report, or the
  same exception of another frame), so the frame's detections are skipped and the
  remaining frames are processed; and when the frames before it are processed, the
  loop goes on from their accumulators, unchanged but for the two lines printed for
  the frame, the second of which is the error message. An exception of any other
  class raised there is not caught: when the frames before it are processed, it
  leaves the analysis, whatever frames follow.
\<close>

theorem request_failure_skips_frame:
  "analyze_video_background rt m (before @ (image_url, Raised (RequestException e)) # after)
       manifest
     = analyze_video_background rt m (before @ after) manifest \<and>
   (\<forall>acc. process_frames m n i before acc0 = Inr acc \<longrightarrow>
      process_frames m n i (before @ [(image_url, Raised (RequestException e))]) acc0 =
        Inr (acc\<lparr>printed := printed acc @
               [processing_line (i + length before) n image_url,
                fetch_error_line image_url e]\<rparr>)) \<and>
   (\<forall>other acc. (\<forall>t. other \<noteq> RequestException t) \<longrightarrow> accumulate m before = Inr acc \<longrightarrow>
      analyze_video_background rt m (before @ (image_url, Raised other) # after) manifest
        = Inl other)"
proof (intro conjI allI impI)
  show "analyze_video_background rt m (before @ (image_url, Raised (RequestException e)) # after)
      manifest = analyze_video_background rt m (before @ after) manifest"
    by (rule analyze_dicts) (simp add: accumulate_def skip_dicts dicts_def)
  show "process_frames m n i (before @ [(image_url, Raised (RequestException e))]) acc0 =
      Inr (acc\<lparr>printed := printed acc @
             [processing_line (i + length before) n image_url, fetch_error_line image_url e]\<rparr>)"
    if "process_frames m n i before acc0 = Inr acc" for acc
    using that by (simp add: process_frames_append)
  show "analyze_video_background rt m (before @ (image_url, Raised other) # after) manifest
      = Inl other"
    if "\<forall>t. other \<noteq> RequestException t" and "accumulate m before = Inr acc" for other acc
    using other_exception_propagates[OF that] by (simp add: analyze_video_background_def)
qed

theorem request_failure_skips_frame_witness:
  "analyze_video_background exact_arithmetic example_model example_frames example_declared
     = analyze_video_background exact_arithmetic example_model
         [(''https://images.example/1'', Returned [(57, 9 / 10), (56, 8 / 10)]),
          (''https://images.example/3'', Returned [(56, 7 / 10)])] example_declared \<and>
   (\<exists>acc. process_frames example_model 3 0
            [(''https://images.example/1'', Returned [(57, 9 / 10), (56, 8 / 10)])]
            \<lparr>all_detected_items = [], all_detected_counts = [], printed = []\<rparr> = Inr acc \<and>
      process_frames example_model 3 0
            [(''https://images.example/1'', Returned [(57, 9 / 10), (56, 8 / 10)]),
             (''https://images.example/2'', Raised (RequestException ''timed out''))]
            \<lparr>all_detected_items = [], all_detected_counts = [], printed = []\<rparr>
        = Inr (acc\<lparr>printed := printed acc @
                 [processing_line 1 3 ''https://images.example/2'',
                  fetch_error_line ''https://images.example/2'' ''timed out'']\<rparr>)) \<and>
   (\<exists>acc. accumulate example_model
            [(''https://images.example/1'', Returned [(57, 9 / 10), (56, 8 / 10)])] = Inr acc) \<and>
   analyze_video_background exact_arithmetic example_model
     [(''https://images.example/1'', Returned [(57, 9 / 10), (56, 8 / 10)]),
      (''https://images.example/2'', Raised (OtherException ''cannot identify image file'')),
      (''https://images.example/3'', Returned [(56, 7 / 10)])] example_declared
     = Inl (OtherException ''cannot identify image file'')"
proof -
  let ?f1 = "(''https://images.example/1'', Returned [(57, 9 / 10), (56, 8 / 10 :: real)])"
  let ?f3 = "(''https://images.example/3'', Returned [(56, 7 / 10 :: real)])"
  let ?acc0 = "\<lparr>all_detected_items = [], all_detected_counts = [], printed = []\<rparr>"
  let ?other = "OtherException ''cannot identify image file''"
  note skip = request_failure_skips_frame[where m = example_model and before = "[?f1]"
      and image_url = "''https://images.example/2''" and e = "''timed out''"
      and after = "[?f3]" and manifest = example_declared and n = 3 and i = 0
      and ?acc0.0 = ?acc0 and rt = exact_arithmetic]
  have fr: "example_frames = [?f1] @ (''https://images.example/2'', Raised (RequestException ''timed out'')) # [?f3]"
    by (simp add: example_frames_def)
  have "\<exists>acc. process_frames example_model 3 0 [?f1] ?acc0 = Inr acc"
    by (simp add: example_model_def record_detection_def)
  then obtain acc where acc: "process_frames example_model 3 0 [?f1] ?acc0 = Inr acc" by blast
  have a: "analyze_video_background exact_arithmetic example_model example_frames example_declared
      = analyze_video_background exact_arithmetic example_model [?f1, ?f3] example_declared"
    using skip[THEN conjunct1] unfolding fr by (simp only: append.simps)
  have one: "0 + length [?f1] = (1::nat)" by simp
  have b: "process_frames example_model 3 0
      [?f1, (''https://images.example/2'', Raised (RequestException ''timed out''))] ?acc0
      = Inr (acc\<lparr>printed := printed acc @
               [processing_line 1 3 ''https://images.example/2'',
                fetch_error_line ''https://images.example/2'' ''timed out'']\<rparr>)"
    using skip[THEN conjunct2, THEN conjunct1, rule_format, OF acc] unfolding one
    by (simp only: append.simps)
  from acc b have log: "\<exists>acc. process_frames example_model 3 0 [?f1] ?acc0 = Inr acc \<and>
      process_frames example_model 3 0
        [?f1, (''https://images.example/2'', Raised (RequestException ''timed out''))] ?acc0
      = Inr (acc\<lparr>printed := printed acc @
               [processing_line 1 3 ''https://images.example/2'',
                fetch_error_line ''https://images.example/2'' ''timed out'']\<rparr>)"
    by (intro exI[of _ acc] conjI)
  have "\<exists>acc. accumulate example_model [?f1] = Inr acc"
    by (simp add: accumulate_def example_model_def record_detection_def)
  then obtain acc1 where acc1: "accumulate example_model [?f1] = Inr acc1" by blast
  have no: "\<forall>t. ?other \<noteq> RequestException t" by simp
  have c: "analyze_video_background exact_arithmetic example_model
      [?f1, (''https://images.example/2'', Raised ?other), ?f3] example_declared = Inl ?other"
    using skip[THEN conjunct2, THEN conjunct2, rule_format, OF no[rule_format] acc1]
    by (simp only: append.simps)
  from acc1 have ex: "\<exists>acc. accumulate example_model [?f1] = Inr acc" by (rule exI)
  from a log ex c show ?thesis by (intro conjI)
qed



text \<open>
  C10. When the declared environment is absent or the empty string, the mismatch list
  consists of the asset mismatch strings only and holds no environment mismatch string,
  whatever was detected; the risk flag is \<^verbatim>\<open>"Review Required"\<close> exactly when some
  declared count differs from the detected one, and \<^verbatim>\<open>"Pass"\<close> exactly when none does.
\<close>

theorem undeclared_environment_not_compared:
  assumes "analyze_video_background rt m frames manifest = Inr r"
    and "environment manifest = None \<or> environment manifest = Some []"
  shows "mismatch_highlight r =
           asset_mismatches (declared_assets manifest) (detected_count (detections m frames)) \<and>
         (\<forall>d e. environment_mismatch d e \<notin> set (mismatch_highlight r)) \<and>
         (risk_flag r = ''Review Required'' \<longleftrightarrow>
            (\<exists>p \<in> set (declared_assets manifest).
               snd p \<noteq> detected_count (detections m frames) (fst p))) \<and>
         (risk_flag r = ''Pass'' \<longleftrightarrow>
            (\<forall>p \<in> set (declared_assets manifest).
               snd p = detected_count (detections m frames) (fst p)))"
proof -
  let ?assets = "asset_mismatches (declared_assets manifest) (detected_count (detections m frames))"
  have env: "compare_environment (environment manifest)
      (detected_environment (analysis_results r)) ([], ''Pass'') = ([], ''Pass'')"
    using assms(2) by (auto simp: compare_environment_def)
  have mm: "mismatch_highlight r = ?assets"
    using analyze_report(1)[OF assms(1)] env by simp
  have fl: "risk_flag r = (if ?assets = [] then ''Pass'' else ''Review Required'')"
    using analyze_report(2)[OF assms(1)] env by simp
  have no: "environment_mismatch d e \<notin> set (mismatch_highlight r)" for d e
    using asset_mismatch_not_environment[of "environment_mismatch d e"] mm by auto
  from mm fl no show ?thesis
    by (auto simp: asset_mismatches_empty)
qed

theorem undeclared_environment_not_compared_witness:
  "\<exists>r. analyze_video_background exact_arithmetic example_model example_frames
          \<lparr>environment = None, assets = Some [(''sofa'', 1), (''counter'', 1)]\<rparr> = Inr r \<and>
     detected_environment (analysis_results r) = ''Home'' \<and>
     mismatch_highlight r = [asset_mismatch ''counter'' 1 0] \<and>
     risk_flag r = ''Review Required''"
proof -
  let ?ds = "detections example_model example_frames"
  let ?manifest = "\<lparr>environment = None, assets = Some [(''sofa'', 1), (''counter'', 1)]\<rparr>"
  define r where "r =
    \<lparr>declared_data = ?manifest,
     analysis_results =
       \<lparr>detected_environment = ''Home'', environment_confidence = 4 / 5,
        detected_objects =
          [\<lparr>item = ''Sofa'', count = 1, avg_confidence = 9 / 10\<rparr>,
           \<lparr>item = ''Chair'', count = 2, avg_confidence = 3 / 4\<rparr>]\<rparr>,
     mismatch_highlight = [asset_mismatch ''counter'' 1 0],
     risk_flag = ''Review Required''\<rparr>"
  have a: "analyze_video_background exact_arithmetic example_model example_frames ?manifest = Inr r"
    unfolding r_def by code_simp
  have e: "environment ?manifest = None \<or> environment ?manifest = Some []" by simp
  have s: "asset_mismatches (declared_assets ?manifest) (detected_count ?ds)
      = [asset_mismatch ''counter'' 1 0]"
    by (simp add: asset_mismatches_def declared_assets_def example_counts)
  have h: "\<exists>p \<in> set (declared_assets ?manifest). snd p \<noteq> detected_count ?ds (fst p)"
    by (simp add: declared_assets_def example_counts)
  from undeclared_environment_not_compared[OF a e] h have
    "mismatch_highlight r = asset_mismatches (declared_assets ?manifest) (detected_count ?ds)"
    and "risk_flag r = ''Review Required''"
    by blast+
  with a s show ?thesis by (intro exI[of _ r]) (simp add: r_def)
qed

end
